theory Spec2Isabelle
  imports Main "HOL-Library.Sublist" "HOL-Library.Multiset"
begin

section \<open>CompositionEngine: \<open>Display::disconnect\<close>\<close>

text \<open>
  \<open>services/surfaceflinger/CompositionEngine/src/Display.cpp\<close>, lines 112-122.
  The display object keeps its id \<open>mId\<close> and the flag \<open>mIsDisconnected\<close>; the call
  \<open>getCompositionEngine().getHwComposer().disconnectDisplay(*id)\<close> is an effect on the
  hardware composer, recorded here as the list \<open>hwcDisconnectCalls\<close> of the ids it was
  called with, oldest first. Every other member of the object lives in the record's
  extension part and is carried along untouched.

  \<open>HalDisplayId::tryCast\<close> is declared in a header that is not part of this
  development, so it is a parameter \<open>tryCast\<close> of the model.
\<close>

record ('id, 'hal) Display =
  mId :: 'id
  mIsDisconnected :: bool
  hwcDisconnectCalls :: "'hal list"

definition disconnect ::
  "('id \<Rightarrow> 'hal option) \<Rightarrow> ('id, 'hal, 'z) Display_scheme \<Rightarrow> ('id, 'hal, 'z) Display_scheme"
where
  "disconnect tryCast d =
     (if mIsDisconnected d then d
      else (let d1 = d\<lparr>mIsDisconnected := True\<rparr> in
            (case tryCast (mId d1) of
               Some i \<Rightarrow> d1\<lparr>hwcDisconnectCalls := hwcDisconnectCalls d1 @ [i]\<rparr>
             | None \<Rightarrow> d1)))"

section \<open>Scheduler: \<open>FrameTarget\<close>\<close>

text \<open>
  \<open>services/surfaceflinger/Scheduler/include/scheduler/FrameTargeter.h\<close>, lines 39-101:
  the read-only interface to the per-frame metrics. The three getters of lines 73-75 read
  the four flags of lines 84-87.
\<close>

record FrameTarget =
  mVsyncId :: int
  mFrameBeginTime :: int
  mExpectedPresentTime :: int
  mFramePending :: bool
  mFrameMissed :: bool
  mHwcFrameMissed :: bool
  mGpuFrameMissed :: bool

definition isFramePending :: "FrameTarget \<Rightarrow> bool" where
  "isFramePending t = mFramePending t"

definition didMissFrame :: "FrameTarget \<Rightarrow> bool" where
  "didMissFrame t = mFrameMissed t"

definition didMissHwcFrame :: "FrameTarget \<Rightarrow> bool" where
  "didMissHwcFrame t = (mHwcFrameMissed t \<and> \<not> mGpuFrameMissed t)"

type_synonym Token = nat

section \<open>Input dispatcher: focus resolution\<close>

text \<open>Modelled from the spec: \<open>FocusResolver::FocusChanges\<close> (\<open>FocusResolver.h\<close> is
  missing), section 3: the old and the new focused token and the display id (the reason, a
  text for the log, is left out).\<close>

record FocusChanges =
  oldFocus :: "Token option"
  newFocus :: "Token option"
  displayId :: int

text \<open>Modelled from the spec: the state of \<open>FocusResolver\<close> (\<open>FocusResolver.h\<close> is
  missing), section 3: the focused window token of each display, and the token last asked
  for through \<open>setFocusedWindow\<close>.\<close>

record FocusResolver =
  mFocusedWindowTokenByDisplay :: "int \<Rightarrow> Token option"
  mFocusRequestByDisplay :: "int \<Rightarrow> Token option"

text \<open>
  The part of \<open>InputDispatcher\<close> that \<open>setInputWindows\<close> works on: \<open>mFocusResolver\<close> and
  \<open>mWindowHandlesByDisplay\<close> (header, lines 374 and 428), and the focus-change
  notifications it has produced, oldest first. A window handle is a value of any type
  \<open>'w\<close>.
\<close>

record 'w FocusState =
  mFocusResolver :: FocusResolver
  mWindowHandlesByDisplay :: "int \<Rightarrow> 'w list"
  focusNotifications :: "FocusChanges list"

text \<open>Modelled from the spec: \<open>FocusResolver::setInputWindows\<close> (\<open>FocusResolver.cpp\<close> is
  missing), section 3: focus is recomputed from the metadata of the window handles, and a
  \<open>FocusChanges\<close> value is produced when the focused token of the display changes. The
  specification names the metadata (focusable flag, visibility, token validity) and not
  the rule, so the rule is the parameter \<open>resolve\<close>: any function of the requested token
  and the display's window handles.\<close>

definition resolverSetInputWindows ::
  "(Token option \<Rightarrow> 'w list \<Rightarrow> Token option) \<Rightarrow> int \<Rightarrow> 'w list \<Rightarrow> FocusResolver
     \<Rightarrow> FocusChanges option \<times> FocusResolver" where
  "resolverSetInputWindows resolve display windows r =
     (let currentFocus = mFocusedWindowTokenByDisplay r display;
          resolved = resolve (mFocusRequestByDisplay r display) windows
      in if resolved = currentFocus then (None, r)
         else (Some \<lparr>oldFocus = currentFocus, newFocus = resolved, displayId = display\<rparr>,
               r\<lparr>mFocusedWindowTokenByDisplay :=
                    (mFocusedWindowTokenByDisplay r)(display := resolved)\<rparr>))"

text \<open>Modelled from the spec: \<open>onFocusChangedLocked\<close> (line 687, body missing),
  sections 2 and 4.7: a focus change is notified.\<close>

definition onFocusChangedLocked :: "FocusChanges \<Rightarrow> 'w FocusState \<Rightarrow> 'w FocusState" where
  "onFocusChangedLocked changes s = s\<lparr>focusNotifications := focusNotifications s @ [changes]\<rparr>"

text \<open>Modelled from the spec: \<open>setInputWindowsLocked\<close> (line 378, body missing),
  sections 3 and 6: the window handles of the display are replaced and focus is resolved
  again.\<close>

definition setInputWindowsLocked ::
  "(Token option \<Rightarrow> 'w list \<Rightarrow> Token option) \<Rightarrow> 'w list \<Rightarrow> int \<Rightarrow> 'w FocusState
     \<Rightarrow> 'w FocusState" where
  "setInputWindowsLocked resolve inputWindowHandles display s =
     (let s1 = s\<lparr>mWindowHandlesByDisplay :=
                   (mWindowHandlesByDisplay s)(display := inputWindowHandles)\<rparr>;
          res = resolverSetInputWindows resolve display inputWindowHandles (mFocusResolver s1);
          s2 = s1\<lparr>mFocusResolver := snd res\<rparr>
      in (case fst res of None \<Rightarrow> s2 | Some changes \<Rightarrow> onFocusChangedLocked changes s2))"

text \<open>Modelled from the spec: \<open>setInputWindows\<close> (line 113, body missing), section 6: the
  argument maps display ids to window handles, here a list of pairs whose display ids are
  distinct, taken display by display.\<close>

definition setInputWindows ::
  "(Token option \<Rightarrow> 'w list \<Rightarrow> Token option) \<Rightarrow> (int \<times> 'w list) list \<Rightarrow> 'w FocusState
     \<Rightarrow> 'w FocusState" where
  "setInputWindows resolve handlesPerDisplay s =
     fold (\<lambda>p. setInputWindowsLocked resolve (snd p) (fst p)) handlesPerDisplay s"

text \<open>A state is settled for a window set when every display of the set shows these
  handles and its focus is the resolved one.\<close>

definition settled ::
  "(Token option \<Rightarrow> 'w list \<Rightarrow> Token option) \<Rightarrow> (int \<times> 'w list) list \<Rightarrow> 'w FocusState \<Rightarrow> bool"
where
  "settled resolve handlesPerDisplay s =
     (\<forall>p \<in> set handlesPerDisplay.
        mWindowHandlesByDisplay s (fst p) = snd p
        \<and> mFocusedWindowTokenByDisplay (mFocusResolver s) (fst p)
            = resolve (mFocusRequestByDisplay (mFocusResolver s) (fst p)) (snd p))"

text \<open>A resolution rule and a state for a worked example: a window handle is its token with
  its focusable and visible flags, and the requested token is focused when one of its
  windows is focusable and visible.\<close>

definition exampleResolve :: "Token option \<Rightarrow> (Token \<times> bool \<times> bool) list \<Rightarrow> Token option" where
  "exampleResolve request windows =
     (case request of
        None \<Rightarrow> None
      | Some tok \<Rightarrow> if (tok, True, True) \<in> set windows then Some tok else None)"

definition exampleFocusState :: "(Token \<times> bool \<times> bool) FocusState" where
  "exampleFocusState =
     \<lparr>mFocusResolver = \<lparr>mFocusedWindowTokenByDisplay = (\<lambda>_. None),
                         mFocusRequestByDisplay = (\<lambda>d. if d = 0 then Some 7 else None)\<rparr>,
      mWindowHandlesByDisplay = (\<lambda>_. []), focusNotifications = []\<rparr>"

section \<open>Input dispatcher: data model\<close>

text \<open>
  \<open>services/inputflinger/dispatcher/InputDispatcher.h\<close> declares the dispatcher; the bodies
  of its member functions are in \<open>InputDispatcher.cpp\<close> and the classes it uses
  (\<open>EventEntry\<close>, \<open>DispatchEntry\<close>, \<open>Connection\<close>, \<open>AnrTracker\<close>, \<open>TouchState\<close>,
  \<open>FocusResolver\<close>) in headers of their own, none of which is among the sources. The
  model below follows the specification (sections 3 to 5) for everything but the
  enumeration \<open>DropReason\<close> (lines 157-165 of the header) and the structure
  \<open>KeyRepeatState\<close> (lines 305-308). Member and function names
  are the header's. Each public call is one atomic critical section of the single mutex
  (specification, section 5); time is the \<open>nsecs_t\<close> argument the callers pass.
\<close>

type_synonym nsecs = int

datatype DropReason =
  NOT_DROPPED | POLICY | APP_SWITCH | DISABLED | BLOCKED | STALE | NO_POINTER_CAPTURE

text \<open>Modelled from the spec: the kinds of inbound entry (\<open>Entry.h\<close> is missing); section 3,
  "EventEntry ... variants".\<close>

datatype EntryType =
  CONFIGURATION_CHANGED | DEVICE_RESET | FOCUS | POINTER_CAPTURE_CHANGED | DRAG
  | TOUCH_MODE_CHANGED | KEY | MOTION | SENSOR

text \<open>Modelled from the spec: the actions of a key or motion entry that the specification
  names, \<open>DOWN\<close>, \<open>MOVE\<close>, \<open>UP\<close> and \<open>CANCEL\<close> (\<open>Entry.h\<close> and \<open>input/Input.h\<close> are
  missing).\<close>

datatype EventAction = ACTION_DOWN | ACTION_MOVE | ACTION_UP | ACTION_CANCEL

text \<open>Modelled from the spec: the results of an injection, section 6 (\<open>InjectionState.h\<close>
  is missing).\<close>

datatype InputEventInjectionResult = PERMISSION_DENIED | FAILED | SUCCEEDED | TIMED_OUT | PENDING

text \<open>Modelled from the spec: the outcomes of a write to a channel, section 4.4: success,
  "buffer full" and "closed" (\<open>status_t\<close> is named by the header; its values are in
  \<open>utils/Errors.h\<close>, which is missing).\<close>

datatype status_t = OK | WOULD_BLOCK | DEAD_OBJECT

text \<open>Modelled from the spec: \<open>EventEntry\<close> (\<open>Entry.h\<close> is missing), section 3: the shared
  fields \<open>sequenceId\<close>, \<open>eventTime\<close> and the nullable \<open>injectionState\<close> (here: whether the
  entry carries one; its result is kept by the dispatcher, keyed by \<open>sequenceId\<close>), and of
  a motion entry the device id, action and pointer ids, of a key entry the repeat count.\<close>

record EventEntry =
  sequenceId :: nat
  eventTime :: nsecs
  entryType :: EntryType
  deviceId :: int
  action :: EventAction
  pointerIds :: "nat list"
  repeatCount :: nat
  injectionState :: bool

text \<open>Modelled from the spec: \<open>InputTarget\<close> (\<open>InputTarget.h\<close> is missing), sections 4.3
  and 4.4: a resolved target names the connection and the pointer ids its window owns.\<close>

record InputTarget =
  targetToken :: Token
  targetPointerIds :: "nat list"

text \<open>Modelled from the spec: \<open>DispatchEntry\<close> (\<open>Entry.h\<close> is missing), section 3: the
  event, the per-connection sequence number, the delivery timestamp and the ANR deadline.
  Of the resolved target flags the model keeps one: whether the entry is a synthesized
  cancellation or a normal delivery. \<open>eventEntry\<close> is what the consumer gets, for a split
  motion entry the split instance; \<open>originalEntry\<close> is bookkeeping of the model, the entry
  taken from the inbound queue (or the key repeat) for which the dispatch entry was
  built.\<close>

record DispatchEntry =
  eventEntry :: EventEntry
  originalEntry :: EventEntry
  seq :: nat
  synthesized :: bool
  deliveryTime :: nsecs
  timeoutTime :: nsecs

text \<open>Modelled from the spec: \<open>Connection\<close> (\<open>Connection.h\<close> is missing), section 3:
  \<open>outboundQueue\<close> (entries not yet written to the channel), \<open>waitQueue\<close> (written, not
  yet acknowledged), the per-connection sequence counter and the responsiveness state;
  \<open>monitor\<close> and \<open>dispatchingTimeout\<close> give the target-specific ANR timeout of
  section 4.4.\<close>

record Connection =
  outboundQueue :: "DispatchEntry list"
  waitQueue :: "DispatchEntry list"
  nextSeq :: nat
  responsive :: bool
  monitor :: bool
  dispatchingTimeout :: nsecs

text \<open>Modelled from the spec: \<open>TouchedWindow\<close> (\<open>TouchedWindow.h\<close> is missing), section 3:
  the pointer ids a window owns and the pointer-down time; one display, windows named by
  their connection token.\<close>

record TouchedWindow =
  twDeviceId :: int
  twPointerIds :: "nat list"
  twDownTime :: nsecs

text \<open>\<open>KeyRepeatState\<close>, header lines 305-308: the last key entry, "or null if no
  repeat", and the time of the next repeat.\<close>

record KeyRepeatState =
  lastKeyEntry :: "EventEntry option"
  nextRepeatTime :: nsecs

text \<open>Modelled from the spec: the part of \<open>InputDispatcherConfiguration\<close>
  (\<open>InputDispatcherConfiguration.h\<close> is missing) that the key-repeat timer of section 4.2
  needs: the time to the first repeat and the time between repeats.\<close>

record InputDispatcherConfiguration =
  keyRepeatTimeout :: nsecs
  keyRepeatDelay :: nsecs

text \<open>Modelled from the spec: the calls into the policy that commands make
  (\<open>InputDispatcherPolicyInterface.h\<close> is missing), sections 4.4, 4.5 and 6.\<close>

datatype PolicyCall =
  NotifyWindowUnresponsive Token
  | NotifyWindowResponsive Token
  | NotifyInputChannelBroken Token
  | InterceptKeyBeforeDispatching Token nat

text \<open>
  The members of \<open>InputDispatcher\<close> (header, lines 167-542) that sections 4.1 to 4.7 of the
  specification speak of. \<open>mAnrTracker\<close> is the ordered collection of (deadline, token)
  pairs, \<open>mIdGenerator\<close> the next \<open>sequenceId\<close>, \<open>mNextToken\<close> the next fresh connection
  token. \<open>channelStatus\<close> is what a write to a connection's channel returns at present;
  the transport changes it. Three fields record what leaves the dispatcher: \<open>channel\<close>,
  every entry written to a connection's channel, oldest first; \<open>policyCalls\<close>, the policy
  calls made; and \<open>arrived\<close>, the inbound entries in the order they were enqueued.
\<close>

record Dispatcher =
  mInboundQueue :: "EventEntry list"
  mPendingEvent :: "EventEntry option"
  mConfig :: InputDispatcherConfiguration
  mKeyRepeatState :: KeyRepeatState
  mConnectionsByToken :: "Token \<Rightarrow> Connection option"
  channelStatus :: "Token \<Rightarrow> status_t"
  mAnrTracker :: "(nsecs \<times> Token) list"
  mCommandQueue :: "PolicyCall list"
  mLastDropReason :: DropReason
  mDispatchEnabled :: bool
  mDispatchFrozen :: bool
  mStaleEventTimeout :: nsecs
  mMonitorDispatchingTimeout :: nsecs
  mGlobalMonitors :: "Token list"
  mTouchState :: "Token \<Rightarrow> TouchedWindow option"
  mIdGenerator :: nat
  mNextToken :: nat
  injectionResults :: "nat \<Rightarrow> InputEventInjectionResult option"
  channel :: "(Token \<times> DispatchEntry) list"
  policyCalls :: "PolicyCall list"
  arrived :: "EventEntry list"

text \<open>Modelled from the spec: the constructor \<open>InputDispatcher(policy, staleEventTimeout)\<close>
  (its body is missing): empty queues and tables, no key to repeat, dispatch not yet
  enabled.\<close>

definition initialDispatcher ::
  "nsecs \<Rightarrow> nsecs \<Rightarrow> InputDispatcherConfiguration \<Rightarrow> Dispatcher" where
  "initialDispatcher staleEventTimeout monitorTimeout config =
     \<lparr>mInboundQueue = [], mPendingEvent = None, mConfig = config,
      mKeyRepeatState = \<lparr>lastKeyEntry = None, nextRepeatTime = 0\<rparr>,
      mConnectionsByToken = (\<lambda>_. None), channelStatus = (\<lambda>_. OK),
      mAnrTracker = [], mCommandQueue = [], mLastDropReason = NOT_DROPPED,
      mDispatchEnabled = False, mDispatchFrozen = False,
      mStaleEventTimeout = staleEventTimeout,
      mMonitorDispatchingTimeout = monitorTimeout,
      mGlobalMonitors = [], mTouchState = (\<lambda>_. None), mIdGenerator = 0, mNextToken = 0,
      injectionResults = (\<lambda>_. None), channel = [], policyCalls = [], arrived = []\<rparr>"

section \<open>Input dispatcher: operations\<close>

text \<open>Modelled from the spec: \<open>isStaleEvent\<close> (declared at line 497, body missing),
  section 4.1: the event's \<open>eventTime\<close> predates now minus \<open>staleEventTimeout\<close>.\<close>

definition isStaleEvent :: "Dispatcher \<Rightarrow> nsecs \<Rightarrow> EventEntry \<Rightarrow> bool" where
  "isStaleEvent s currentTime entry = (eventTime entry < currentTime - mStaleEventTimeout s)"

text \<open>Modelled from the spec: \<open>postCommandLocked\<close> (line 335, body missing), section 4.6:
  a command is queued while the lock is held.\<close>

definition postCommandLocked :: "PolicyCall \<Rightarrow> Dispatcher \<Rightarrow> Dispatcher" where
  "postCommandLocked command s = s\<lparr>mCommandQueue := mCommandQueue s @ [command]\<rparr>"

text \<open>Modelled from the spec: \<open>shouldPruneInboundQueueLocked\<close> (line 499, body missing),
  section 4.1: under queue pressure a new \<open>MOVE\<close> motion entry makes the queued \<open>MOVE\<close>
  entries of its device outdated. Whether the pressure is high is not specified; it is the
  argument \<open>pressure\<close>.\<close>

definition shouldPruneInboundQueueLocked :: "bool \<Rightarrow> EventEntry \<Rightarrow> bool" where
  "shouldPruneInboundQueueLocked pressure motionEntry =
     (pressure \<and> entryType motionEntry = MOTION \<and> action motionEntry = ACTION_MOVE)"

text \<open>Modelled from the spec: the entries that pruning removes, section 4.1: \<open>MOVE\<close> motion
  entries of the same device, "never \<open>DOWN\<close>/\<open>UP\<close>/\<open>CANCEL\<close> entries".\<close>

definition isOutdatedMove :: "EventEntry \<Rightarrow> EventEntry \<Rightarrow> bool" where
  "isOutdatedMove motionEntry queued =
     (entryType queued = MOTION \<and> action queued = ACTION_MOVE
      \<and> deviceId queued = deviceId motionEntry)"

text \<open>Modelled from the spec: \<open>enqueueInboundEventLocked\<close> (line 217, body missing),
  sections 3 and 4.1: the entry gets the next \<open>sequenceId\<close> and goes to the back of the
  inbound queue, from which outdated \<open>MOVE\<close> entries are pruned first if the queue is under
  pressure; the result says whether the loop should be woken.\<close>

definition enqueueInboundEventLocked ::
  "EventEntry \<Rightarrow> bool \<Rightarrow> Dispatcher \<Rightarrow> bool \<times> Dispatcher" where
  "enqueueInboundEventLocked entry pressure s =
     (let e = entry\<lparr>sequenceId := mIdGenerator s\<rparr>;
          queue = (if shouldPruneInboundQueueLocked pressure e
                   then filter (\<lambda>queued. \<not> isOutdatedMove e queued) (mInboundQueue s)
                   else mInboundQueue s)
      in (mInboundQueue s = [],
          s\<lparr>mInboundQueue := queue @ [e],
             mIdGenerator := Suc (mIdGenerator s),
             arrived := arrived s @ [e],
             injectionResults :=
               (if injectionState e then (injectionResults s)(mIdGenerator s \<mapsto> PENDING)
                else injectionResults s)\<rparr>))"

text \<open>Modelled from the spec: \<open>getDispatchingTimeoutLocked\<close> (line 341, body missing),
  section 4.4: monitors get a timeout of their own.\<close>

definition getDispatchingTimeoutLocked :: "Dispatcher \<Rightarrow> Connection \<Rightarrow> nsecs" where
  "getDispatchingTimeoutLocked s connection =
     (if monitor connection then mMonitorDispatchingTimeout s
      else dispatchingTimeout connection)"

text \<open>Modelled from the spec: \<open>removeConnectionLocked\<close> (line 267, body missing),
  section 3, the lifecycle of a connection: on destruction its in-flight entries are
  released, and with them its deadlines, its monitor registration and its touch state.\<close>

definition removeConnectionLocked :: "Token \<Rightarrow> Dispatcher \<Rightarrow> Dispatcher" where
  "removeConnectionLocked tok s =
     s\<lparr>mConnectionsByToken := (mConnectionsByToken s)(tok := None),
        mAnrTracker := filter (\<lambda>p. snd p \<noteq> tok) (mAnrTracker s),
        mGlobalMonitors := removeAll tok (mGlobalMonitors s),
        mTouchState := (mTouchState s)(tok := None)\<rparr>"

text \<open>Modelled from the spec: \<open>abortBrokenDispatchCycleLocked\<close> (line 632, body missing),
  sections 3, 4.4 and 7: when the transport reports closure, or a write finds the channel
  closed, the connection is torn down and the policy is told through a command.\<close>

definition abortBrokenDispatchCycleLocked :: "Token \<Rightarrow> Dispatcher \<Rightarrow> Dispatcher" where
  "abortBrokenDispatchCycleLocked tok s =
     (case mConnectionsByToken s tok of
        None \<Rightarrow> s
      | Some c \<Rightarrow> postCommandLocked (NotifyInputChannelBroken tok) (removeConnectionLocked tok s))"

text \<open>Modelled from the spec: \<open>startDispatchCycleLocked\<close> (line 627, body missing),
  section 4.4: starting a cycle writes the entry at the head of \<open>outboundQueue\<close> to the
  channel and moves it to \<open>waitQueue\<close>; its ANR deadline is registered in the tracker when
  the connection is responsive (header, lines 537-541). If the write fails the cycle is
  aborted: a connection whose channel is closed is torn down, and with a full buffer the
  entry stays at the head of \<open>outboundQueue\<close>, to be sent when an entry in flight has been
  acknowledged (\<open>finishDispatchCycleLocked\<close>).\<close>

definition startDispatchCycleLocked :: "nsecs \<Rightarrow> Token \<Rightarrow> Dispatcher \<Rightarrow> Dispatcher" where
  "startDispatchCycleLocked currentTime tok s =
     (case mConnectionsByToken s tok of
        None \<Rightarrow> s
      | Some c \<Rightarrow>
          (case outboundQueue c of
             [] \<Rightarrow> s
           | d # rest \<Rightarrow>
               (case channelStatus s tok of
                  OK \<Rightarrow>
                    (let d1 = d\<lparr>deliveryTime := currentTime,
                                 timeoutTime := currentTime + getDispatchingTimeoutLocked s c\<rparr>;
                         c1 = c\<lparr>outboundQueue := rest, waitQueue := waitQueue c @ [d1]\<rparr>
                     in s\<lparr>mConnectionsByToken := (mConnectionsByToken s)(tok \<mapsto> c1),
                           channel := channel s @ [(tok, d1)],
                           mAnrTracker :=
                             (if responsive c
                              then insort_key fst (timeoutTime d1, tok) (mAnrTracker s)
                              else mAnrTracker s)\<rparr>)
                | WOULD_BLOCK \<Rightarrow> s
                | DEAD_OBJECT \<Rightarrow> abortBrokenDispatchCycleLocked tok s)))"

text \<open>Modelled from the spec: \<open>splitMotionEvent\<close> (line 663, body missing), section 4.3:
  the split entry is an \<open>EventEntry\<close> instance of its own, so with a \<open>sequenceId\<close> of its
  own (section 3), that carries the subset of the pointers that the target owns.\<close>

definition splitMotionEvent ::
  "EventEntry \<Rightarrow> nat list \<Rightarrow> Dispatcher \<Rightarrow> EventEntry \<times> Dispatcher" where
  "splitMotionEvent originalMotionEntry pointers s =
     (originalMotionEntry
        \<lparr>sequenceId := mIdGenerator s,
         pointerIds := filter (\<lambda>p. p \<in> set pointers) (pointerIds originalMotionEntry)\<rparr>,
      s\<lparr>mIdGenerator := Suc (mIdGenerator s)\<rparr>)"

text \<open>Modelled from the spec: the test of section 4.3 for a target that gets a split entry:
  a motion entry of which the target's window owns some pointers but not all (part of the
  missing body of \<open>enqueueDispatchEntryLocked\<close>).\<close>

definition needsSplit :: "EventEntry \<Rightarrow> InputTarget \<Rightarrow> bool" where
  "needsSplit entry inputTarget =
     (entryType entry = MOTION
      \<and> \<not> set (pointerIds entry) \<subseteq> set (targetPointerIds inputTarget))"

text \<open>Modelled from the spec: the entry that a target gets, section 4.3: the entry itself or
  its split instance (part of the missing body of \<open>enqueueDispatchEntryLocked\<close>).\<close>

definition entryForTarget ::
  "EventEntry \<Rightarrow> InputTarget \<Rightarrow> Dispatcher \<Rightarrow> EventEntry \<times> Dispatcher" where
  "entryForTarget entry inputTarget s =
     (if needsSplit entry inputTarget
      then splitMotionEvent entry (targetPointerIds inputTarget) s
      else (entry, s))"

text \<open>Modelled from the spec: \<open>enqueueDispatchEntryLocked\<close> (line 623, body missing),
  sections 4.3 and 4.4: build a \<open>DispatchEntry\<close> for the target, around the entry or around
  its split instance, and append it to the connection's \<open>outboundQueue\<close>.\<close>

definition enqueueDispatchEntryLocked ::
  "Token \<Rightarrow> EventEntry \<Rightarrow> InputTarget \<Rightarrow> Dispatcher \<Rightarrow> Dispatcher" where
  "enqueueDispatchEntryLocked tok entry inputTarget s =
     (case mConnectionsByToken s tok of
        None \<Rightarrow> s
      | Some c \<Rightarrow>
          (let e = fst (entryForTarget entry inputTarget s);
               s1 = snd (entryForTarget entry inputTarget s);
               d = \<lparr>eventEntry = e, originalEntry = entry, seq = nextSeq c,
                    synthesized = False, deliveryTime = 0, timeoutTime = 0\<rparr>;
               c1 = c\<lparr>outboundQueue := outboundQueue c @ [d], nextSeq := Suc (nextSeq c)\<rparr>
           in s1\<lparr>mConnectionsByToken := (mConnectionsByToken s1)(tok \<mapsto> c1)\<rparr>))"

text \<open>Modelled from the spec: the test of section 4.4 for an idle connection, "its
  \<open>waitQueue\<close> and \<open>outboundQueue\<close> were both empty" (part of the missing body of
  \<open>enqueueDispatchEntriesLocked\<close>).\<close>

definition connectionIsIdle :: "Dispatcher \<Rightarrow> Token \<Rightarrow> bool" where
  "connectionIsIdle s tok =
     (case mConnectionsByToken s tok of
        None \<Rightarrow> False
      | Some c \<Rightarrow> waitQueue c = [] \<and> outboundQueue c = [])"

text \<open>Modelled from the spec: \<open>enqueueDispatchEntriesLocked\<close> (line 619, body missing),
  section 4.4: append the entry and start the cycle at once if the connection was idle.\<close>

definition enqueueDispatchEntriesLocked ::
  "nsecs \<Rightarrow> Token \<Rightarrow> EventEntry \<Rightarrow> InputTarget \<Rightarrow> Dispatcher \<Rightarrow> Dispatcher" where
  "enqueueDispatchEntriesLocked currentTime tok entry inputTarget s =
     (let wasIdle = connectionIsIdle s tok;
          s1 = enqueueDispatchEntryLocked tok entry inputTarget s
      in if wasIdle then startDispatchCycleLocked currentTime tok s1 else s1)"

text \<open>Modelled from the spec: the update of \<open>TouchState\<close> when a motion entry goes to a
  window (part of the missing body of \<open>findTouchedWindowTargetsLocked\<close>), section 4.3: on
  \<open>DOWN\<close> the window comes to own the pointer ids of the entry that are its target's, on
  \<open>UP\<close> and \<open>CANCEL\<close> it gives them up, and a window left with no pointer is
  forgotten.\<close>

definition updateTouchStateLocked :: "EventEntry \<Rightarrow> InputTarget \<Rightarrow> Dispatcher \<Rightarrow> Dispatcher" where
  "updateTouchStateLocked entry inputTarget s =
     (let tok = targetToken inputTarget;
          pointers = filter (\<lambda>p. p \<in> set (targetPointerIds inputTarget)) (pointerIds entry)
      in (case mConnectionsByToken s tok of
            None \<Rightarrow> s
          | Some c \<Rightarrow>
              (if entryType entry \<noteq> MOTION \<or> monitor c then s
               else (case action entry of
                       ACTION_DOWN \<Rightarrow>
                         s\<lparr>mTouchState := (mTouchState s)(tok \<mapsto>
                              (case mTouchState s tok of
                                 None \<Rightarrow> \<lparr>twDeviceId = deviceId entry,
                                          twPointerIds = remdups pointers,
                                          twDownTime = eventTime entry\<rparr>
                               | Some tw \<Rightarrow> tw\<lparr>twDeviceId := deviceId entry,
                                              twPointerIds :=
                                                List.union (twPointerIds tw) pointers\<rparr>))\<rparr>
                     | ACTION_MOVE \<Rightarrow> s
                     | _ \<Rightarrow>
                         (case mTouchState s tok of
                            None \<Rightarrow> s
                          | Some tw \<Rightarrow>
                              (let left = filter (\<lambda>p. p \<notin> set pointers) (twPointerIds tw)
                               in s\<lparr>mTouchState := (mTouchState s)(tok :=
                                       (if left = [] then None
                                        else Some (tw\<lparr>twPointerIds := left\<rparr>)))\<rparr>))))))"

text \<open>Modelled from the spec: \<open>prepareDispatchCycleLocked\<close> (line 615, body missing),
  sections 4.3 and 4.4: record the touch ownership, then enqueue for the target's
  connection.\<close>

definition prepareDispatchCycleLocked ::
  "nsecs \<Rightarrow> Token \<Rightarrow> EventEntry \<Rightarrow> InputTarget \<Rightarrow> Dispatcher \<Rightarrow> Dispatcher" where
  "prepareDispatchCycleLocked currentTime tok entry inputTarget s =
     enqueueDispatchEntriesLocked currentTime tok entry inputTarget
       (updateTouchStateLocked entry inputTarget s)"

text \<open>Modelled from the spec: \<open>selectResponsiveMonitorsLocked\<close> (line 560, body missing),
  sections 4.3 and 4.5: unresponsive monitors are left out.\<close>

definition selectResponsiveMonitorsLocked :: "Dispatcher \<Rightarrow> Token list \<Rightarrow> Token list" where
  "selectResponsiveMonitorsLocked s monitors =
     filter (\<lambda>tok. case mConnectionsByToken s tok of
                      None \<Rightarrow> False | Some c \<Rightarrow> responsive c) monitors"

text \<open>Modelled from the spec: \<open>addGlobalMonitoringTargetsLocked\<close> (line 572, body
  missing), section 4.3: global monitors receive a copy of every motion entry, with all its
  pointers.\<close>

definition addGlobalMonitoringTargetsLocked ::
  "Dispatcher \<Rightarrow> EventEntry \<Rightarrow> InputTarget list \<Rightarrow> InputTarget list" where
  "addGlobalMonitoringTargetsLocked s entry inputTargets =
     (if entryType entry = MOTION
      then inputTargets
           @ map (\<lambda>tok. \<lparr>targetToken = tok, targetPointerIds = pointerIds entry\<rparr>)
               (selectResponsiveMonitorsLocked s (mGlobalMonitors s))
      else inputTargets)"

text \<open>Modelled from the spec: \<open>setInjectionResult\<close> (line 294, body missing), section 5:
  the result the waiting injector reads.\<close>

definition setInjectionResult ::
  "EventEntry \<Rightarrow> InputEventInjectionResult \<Rightarrow> Dispatcher \<Rightarrow> Dispatcher" where
  "setInjectionResult entry injectionResult s =
     (if injectionState entry
      then s\<lparr>injectionResults := (injectionResults s)(sequenceId entry \<mapsto> injectionResult)\<rparr>
      else s)"

text \<open>Modelled from the spec: a connection is a target once (section 4.4, "for each
  resolved target ... the connection"): of the targets that name the same connection the
  first stands.\<close>

primrec uniqueTargets :: "InputTarget list \<Rightarrow> InputTarget list" where
  "uniqueTargets [] = []"
| "uniqueTargets (inputTarget # inputTargets) =
     inputTarget # filter (\<lambda>other. targetToken other \<noteq> targetToken inputTarget)
                     (uniqueTargets inputTargets)"

text \<open>Modelled from the spec: \<open>dispatchEventLocked\<close> (line 477, body missing),
  section 4.4: "for each resolved target".\<close>

definition dispatchEventLocked ::
  "nsecs \<Rightarrow> EventEntry \<Rightarrow> InputTarget list \<Rightarrow> Dispatcher \<Rightarrow> Dispatcher" where
  "dispatchEventLocked currentTime entry inputTargets s =
     fold (\<lambda>inputTarget.
             prepareDispatchCycleLocked currentTime (targetToken inputTarget) entry inputTarget)
       (uniqueTargets inputTargets) s"

text \<open>Modelled from the spec: \<open>dropInboundEventLocked\<close> (line 220, body missing),
  section 4.1: a dropped motion-down entry that carries injection state reports failure to
  the injector.\<close>

definition dropInboundEventLocked :: "EventEntry \<Rightarrow> DropReason \<Rightarrow> Dispatcher \<Rightarrow> Dispatcher" where
  "dropInboundEventLocked entry dropReason s =
     (if entryType entry = MOTION \<and> action entry = ACTION_DOWN
      then setInjectionResult entry FAILED s else s)"

text \<open>Modelled from the spec: \<open>releasePendingEventLocked\<close> (line 350, body missing),
  section 4.1: the dispatcher gives up its reference to the entry.\<close>

definition releasePendingEventLocked :: "Dispatcher \<Rightarrow> Dispatcher" where
  "releasePendingEventLocked s = s\<lparr>mPendingEvent := None\<rparr>"

text \<open>Modelled from the spec: \<open>resetKeyRepeatLocked\<close> (line 310, body missing).\<close>

definition resetKeyRepeatLocked :: "Dispatcher \<Rightarrow> Dispatcher" where
  "resetKeyRepeatLocked s = s\<lparr>mKeyRepeatState := \<lparr>lastKeyEntry = None, nextRepeatTime = 0\<rparr>\<rparr>"

text \<open>Modelled from the spec: \<open>synthesizeKeyRepeatLocked\<close> (line 311, body missing),
  section 4.2, phase 2: the repeat is a new key entry, a copy of the last key with the next
  \<open>sequenceId\<close>, the current time and the repeat count increased; it becomes the last key
  and the next repeat is due after \<open>keyRepeatDelay\<close>. Without a last key nothing is
  synthesized.\<close>

definition synthesizeKeyRepeatLocked :: "nsecs \<Rightarrow> Dispatcher \<Rightarrow> EventEntry option \<times> Dispatcher" where
  "synthesizeKeyRepeatLocked currentTime s =
     (case lastKeyEntry (mKeyRepeatState s) of
        None \<Rightarrow> (None, s)
      | Some k \<Rightarrow>
          (let e = k\<lparr>sequenceId := mIdGenerator s, eventTime := currentTime,
                     repeatCount := Suc (repeatCount k), injectionState := False\<rparr>
           in (Some e,
               s\<lparr>mIdGenerator := Suc (mIdGenerator s),
                  mKeyRepeatState :=
                    \<lparr>lastKeyEntry = Some e,
                     nextRepeatTime = currentTime + keyRepeatDelay (mConfig s)\<rparr>\<rparr>)))"

text \<open>Modelled from the spec: the key-repeat timer of section 4.2 is started by a key that
  goes down and stopped by any other key entry (part of the missing body of
  \<open>dispatchKeyLocked\<close>, line 465); the first repeat is due \<open>keyRepeatTimeout\<close> after the
  key's event time.\<close>

definition updateKeyRepeatLocked :: "EventEntry \<Rightarrow> Dispatcher \<Rightarrow> Dispatcher" where
  "updateKeyRepeatLocked entry s =
     (if entryType entry \<noteq> KEY then s
      else if action entry = ACTION_DOWN
      then s\<lparr>mKeyRepeatState :=
               \<lparr>lastKeyEntry = Some entry,
                nextRepeatTime = eventTime entry + keyRepeatTimeout (mConfig s)\<rparr>\<rparr>
      else resetKeyRepeatLocked s)"

text \<open>Modelled from the spec: phase 3 of \<open>dispatchOnceInnerLocked\<close>, sections 4.1 and 4.2,
  for the pending entry: it is dropped if it is stale or if one of the checks whose
  conditions the specification leaves to the policy and the window state says so (their
  outcome is the argument \<open>verdict\<close>), and else dispatched to the resolved targets. Target
  resolution, section 4.3, is not modelled: its result is the argument \<open>inputTargets\<close>.
  Then the entry is released.\<close>

definition dispatchPendingEventLocked ::
  "nsecs \<Rightarrow> DropReason \<Rightarrow> InputTarget list \<Rightarrow> EventEntry \<Rightarrow> Dispatcher \<Rightarrow> Dispatcher" where
  "dispatchPendingEventLocked currentTime verdict inputTargets e s =
     (let dropReason =
            (if verdict \<noteq> NOT_DROPPED then verdict
             else if isStaleEvent s currentTime e then STALE
             else NOT_DROPPED);
          s1 = (if dropReason \<noteq> NOT_DROPPED
                then dropInboundEventLocked e dropReason s
                else setInjectionResult e SUCCEEDED
                       (dispatchEventLocked currentTime e
                          (addGlobalMonitoringTargetsLocked s e inputTargets) s))
      in releasePendingEventLocked (s1\<lparr>mLastDropReason := dropReason\<rparr>))"

text \<open>Modelled from the spec: \<open>dispatchOnceInnerLocked\<close> (line 214, body missing),
  section 4.2, phases 1 to 3: nothing is done while dispatch is disabled or frozen;
  otherwise the head of the inbound queue is taken, or, if the queue is empty and the
  repeat timer has elapsed, a key repeat is synthesized; and the entry taken is
  dispatched.\<close>

definition dispatchOnceInnerLocked ::
  "nsecs \<Rightarrow> DropReason \<Rightarrow> InputTarget list \<Rightarrow> Dispatcher \<Rightarrow> Dispatcher" where
  "dispatchOnceInnerLocked currentTime verdict inputTargets s =
     (if \<not> mDispatchEnabled s \<or> mDispatchFrozen s then s
      else (case mInboundQueue s of
              [] \<Rightarrow>
                (if currentTime < nextRepeatTime (mKeyRepeatState s) then s
                 else (case synthesizeKeyRepeatLocked currentTime s of
                         (None, s1) \<Rightarrow> s1
                       | (Some e, s1) \<Rightarrow>
                           dispatchPendingEventLocked currentTime verdict inputTargets e
                             (s1\<lparr>mPendingEvent := Some e\<rparr>)))
            | e # rest \<Rightarrow>
                dispatchPendingEventLocked currentTime verdict inputTargets e
                  (updateKeyRepeatLocked e (s\<lparr>mInboundQueue := rest, mPendingEvent := Some e\<rparr>))))"

text \<open>Modelled from the spec: \<open>processAnrsLocked\<close> (line 340, body missing), section 4.5:
  if the earliest deadline of the tracker has passed, the connection is marked unresponsive,
  all its tracked entries are removed and the notification is deferred into a command.\<close>

definition processAnrsLocked :: "nsecs \<Rightarrow> Dispatcher \<Rightarrow> Dispatcher" where
  "processAnrsLocked currentTime s =
     (case mAnrTracker s of
        [] \<Rightarrow> s
      | (deadline, tok) # _ \<Rightarrow>
          (if currentTime < deadline then s
           else (let s1 = s\<lparr>mAnrTracker := filter (\<lambda>p. snd p \<noteq> tok) (mAnrTracker s)\<rparr>
                 in (case mConnectionsByToken s tok of
                       None \<Rightarrow> s1
                     | Some c \<Rightarrow>
                         postCommandLocked (NotifyWindowUnresponsive tok)
                           (s1\<lparr>mConnectionsByToken :=
                                 (mConnectionsByToken s)(tok \<mapsto> c\<lparr>responsive := False\<rparr>)\<rparr>)))))"

text \<open>Modelled from the spec: \<open>finishDispatchCycleLocked\<close> (line 629, body missing),
  sections 4.4 and 4.5: the acknowledgement is matched with the waiting entry by its
  sequence number; the entry leaves \<open>waitQueue\<close> and the tracker; a connection that was
  unresponsive and has acknowledged all its pending entries is responsive again; an
  unhandled key defers to the policy; and the next cycle starts if \<open>outboundQueue\<close> is not
  empty.\<close>

definition finishDispatchCycleLocked ::
  "nsecs \<Rightarrow> Token \<Rightarrow> nat \<Rightarrow> bool \<Rightarrow> Dispatcher \<Rightarrow> Dispatcher" where
  "finishDispatchCycleLocked currentTime tok sq handled s =
     (case mConnectionsByToken s tok of
        None \<Rightarrow> s
      | Some c \<Rightarrow>
          (case find (\<lambda>d. seq d = sq) (waitQueue c) of
             None \<Rightarrow> s
           | Some d \<Rightarrow>
               (let wq = remove1 d (waitQueue c);
                    recovered = (\<not> responsive c \<and> wq = []);
                    c1 = c\<lparr>waitQueue := wq, responsive := (responsive c \<or> wq = [])\<rparr>;
                    s1 = s\<lparr>mConnectionsByToken := (mConnectionsByToken s)(tok \<mapsto> c1),
                           mAnrTracker := remove1 (timeoutTime d, tok) (mAnrTracker s)\<rparr>;
                    s2 = (if recovered then postCommandLocked (NotifyWindowResponsive tok) s1
                          else s1);
                    s3 = (if \<not> handled \<and> entryType (eventEntry d) = KEY
                          then postCommandLocked
                                 (InterceptKeyBeforeDispatching tok (sequenceId (eventEntry d))) s2
                          else s2)
                in if outboundQueue c1 \<noteq> [] then startDispatchCycleLocked currentTime tok s3
                   else s3)))"

text \<open>Modelled from the spec: \<open>synthesizeCancelationEventsForConnectionLocked\<close> (line 649,
  body missing), section 4.7: a \<open>CANCEL\<close> entry for the pointers the connection owns is
  synthesized and dispatched at once, ahead of the normal queue order and without target
  resolution; nothing is sent if the channel does not take the write.\<close>

definition synthesizeCancelationEventsForConnectionLocked ::
  "nsecs \<Rightarrow> Token \<Rightarrow> Dispatcher \<Rightarrow> Dispatcher" where
  "synthesizeCancelationEventsForConnectionLocked currentTime tok s =
     (case mConnectionsByToken s tok of
        None \<Rightarrow> s
      | Some c \<Rightarrow>
          (case mTouchState s tok of
             None \<Rightarrow> s
           | Some tw \<Rightarrow>
               (if channelStatus s tok \<noteq> OK then s
                else (let e = \<lparr>sequenceId = mIdGenerator s, eventTime = currentTime,
                               entryType = MOTION, deviceId = twDeviceId tw,
                               action = ACTION_CANCEL, pointerIds = twPointerIds tw,
                               repeatCount = 0, injectionState = False\<rparr>;
                          d = \<lparr>eventEntry = e, originalEntry = e, seq = nextSeq c,
                               synthesized = True, deliveryTime = currentTime,
                               timeoutTime = currentTime + getDispatchingTimeoutLocked s c\<rparr>;
                          c1 = c\<lparr>waitQueue := waitQueue c @ [d], nextSeq := Suc (nextSeq c)\<rparr>
                      in s\<lparr>mConnectionsByToken := (mConnectionsByToken s)(tok \<mapsto> c1),
                            mIdGenerator := Suc (mIdGenerator s),
                            channel := channel s @ [(tok, d)],
                            mAnrTracker :=
                              (if responsive c
                               then insort_key fst (timeoutTime d, tok) (mAnrTracker s)
                               else mAnrTracker s),
                            mTouchState := (mTouchState s)(tok := None)\<rparr>))))"

text \<open>Modelled from the spec: \<open>removeInputChannelLocked\<close> (line 678, body missing),
  sections 3 and 4.7: cancellations are synthesized for the connection, then it is
  destroyed.\<close>

definition removeInputChannelLocked :: "nsecs \<Rightarrow> Token \<Rightarrow> Dispatcher \<Rightarrow> Dispatcher" where
  "removeInputChannelLocked currentTime tok s =
     (case mConnectionsByToken s tok of
        None \<Rightarrow> s
      | Some c \<Rightarrow>
          removeConnectionLocked tok
            (synthesizeCancelationEventsForConnectionLocked currentTime tok s))"

text \<open>Modelled from the spec: \<open>createInputChannel\<close> and \<open>createInputMonitor\<close> (lines 130
  and 133, bodies missing), section 3: a connection with empty queues under a fresh
  token, its channel open.\<close>

definition createInputChannelLocked :: "bool \<Rightarrow> nsecs \<Rightarrow> Dispatcher \<Rightarrow> Token \<times> Dispatcher" where
  "createInputChannelLocked isMonitor timeout s =
     (mNextToken s,
      s\<lparr>mConnectionsByToken := (mConnectionsByToken s)(mNextToken s \<mapsto>
            \<lparr>outboundQueue = [], waitQueue = [], nextSeq = 1, responsive = True,
             monitor = isMonitor, dispatchingTimeout = timeout\<rparr>),
         channelStatus := (channelStatus s)(mNextToken s := OK),
         mGlobalMonitors :=
           (if isMonitor then mGlobalMonitors s @ [mNextToken s] else mGlobalMonitors s),
         mNextToken := Suc (mNextToken s)\<rparr>)"

text \<open>Modelled from the spec: \<open>runCommandsLockedInterruptable\<close> (line 334, body missing),
  section 4.6: the queued commands run in FIFO order, each making its policy call.\<close>

definition runCommandsLockedInterruptable :: "Dispatcher \<Rightarrow> Dispatcher" where
  "runCommandsLockedInterruptable s =
     s\<lparr>policyCalls := policyCalls s @ mCommandQueue s, mCommandQueue := []\<rparr>"

text \<open>Modelled from the spec: \<open>setInputDispatchMode\<close> (line 120, body missing).\<close>

definition setInputDispatchModeLocked :: "bool \<Rightarrow> bool \<Rightarrow> Dispatcher \<Rightarrow> Dispatcher" where
  "setInputDispatchModeLocked enabled frozen s =
     s\<lparr>mDispatchEnabled := enabled, mDispatchFrozen := frozen\<rparr>"

text \<open>Modelled from the spec: the transport of a channel (\<open>InputTransport.h\<close> is missing),
  sections 1 and 4.4: from now on a write to the channel returns \<open>status\<close>.\<close>

definition setChannelStatus :: "Token \<Rightarrow> status_t \<Rightarrow> Dispatcher \<Rightarrow> Dispatcher" where
  "setChannelStatus tok status s = s\<lparr>channelStatus := (channelStatus s)(tok := status)\<rparr>"

text \<open>
  The calls that change the dispatcher: the producers' \<open>notify...\<close> (with the entry and
  whether the inbound queue is under pressure), one iteration of the dispatch loop
  (\<open>dispatchOnce\<close>, with the current time, the outcome of the drop checks the
  specification leaves open and the resolved targets), the consumer's acknowledgement
  (\<open>handleReceiveCallback\<close>), registration and removal of a channel, closure of a channel
  reported by its transport, a change of what writes to a channel return, and
  \<open>setInputDispatchMode\<close>.
\<close>

datatype ApiCall =
  NotifyEvent EventEntry bool
  | DispatchOnce nsecs DropReason "InputTarget list"
  | FinishDispatch nsecs Token nat bool
  | CreateInputChannel bool nsecs
  | RemoveInputChannel nsecs Token
  | ChannelClosed Token
  | ChannelStatus Token status_t
  | SetInputDispatchMode bool bool

text \<open>Modelled from the spec: the public entry points (header, lines 97-136 and 212;
  bodies missing), each one critical section; \<open>dispatchOnce\<close> is section 4.2 with the
  timers of section 4.5 checked when the loop wakes up and the commands run last.\<close>

fun step :: "ApiCall \<Rightarrow> Dispatcher \<Rightarrow> Dispatcher" where
  "step (NotifyEvent entry pressure) s = snd (enqueueInboundEventLocked entry pressure s)"
| "step (DispatchOnce currentTime verdict inputTargets) s =
     runCommandsLockedInterruptable
       (dispatchOnceInnerLocked currentTime verdict inputTargets
          (processAnrsLocked currentTime s))"
| "step (FinishDispatch currentTime tok sq handled) s =
     finishDispatchCycleLocked currentTime tok sq handled s"
| "step (CreateInputChannel isMonitor timeout) s =
     snd (createInputChannelLocked isMonitor timeout s)"
| "step (RemoveInputChannel currentTime tok) s = removeInputChannelLocked currentTime tok s"
| "step (ChannelClosed tok) s = abortBrokenDispatchCycleLocked tok s"
| "step (ChannelStatus tok status) s = setChannelStatus tok status s"
| "step (SetInputDispatchMode enabled frozen) s = setInputDispatchModeLocked enabled frozen s"

fun run :: "ApiCall list \<Rightarrow> Dispatcher \<Rightarrow> Dispatcher" where
  "run [] s = s"
| "run (a # as) s = run as (step a s)"

text \<open>
  What a connection has been sent and what waits for it: \<open>channelOf\<close> is the content of
  its channel, \<open>delivered\<close> the entries that have been sent to it (those for which the
  dispatch entries in its channel were built, synthesized cancellations left out),
  \<open>outQ\<close> its outbound queue, and \<open>pipeline\<close> the entries sent to it followed by those
  enqueued for sending.
\<close>

definition channelOf :: "Token \<Rightarrow> Dispatcher \<Rightarrow> DispatchEntry list" where
  "channelOf tok s = map snd (filter (\<lambda>p. fst p = tok) (channel s))"

definition delivered :: "Token \<Rightarrow> Dispatcher \<Rightarrow> EventEntry list" where
  "delivered tok s = map originalEntry (filter (\<lambda>d. \<not> synthesized d) (channelOf tok s))"

definition outQ :: "Token \<Rightarrow> Dispatcher \<Rightarrow> DispatchEntry list" where
  "outQ tok s = (case mConnectionsByToken s tok of None \<Rightarrow> [] | Some c \<Rightarrow> outboundQueue c)"












definition written ::
  "nsecs \<Rightarrow> Token \<Rightarrow> Connection \<Rightarrow> DispatchEntry \<Rightarrow> DispatchEntry list \<Rightarrow> Dispatcher
     \<Rightarrow> Dispatcher" where
  "written currentTime tok c d rest s =
     (let d1 = d\<lparr>deliveryTime := currentTime,
                  timeoutTime := currentTime + getDispatchingTimeoutLocked s c\<rparr>
      in s\<lparr>mConnectionsByToken :=
              (mConnectionsByToken s)(tok \<mapsto> c\<lparr>outboundQueue := rest,
                                                  waitQueue := waitQueue c @ [d1]\<rparr>),
            channel := channel s @ [(tok, d1)],
            mAnrTracker :=
              (if responsive c then insort_key fst (timeoutTime d1, tok) (mAnrTracker s)
               else mAnrTracker s)\<rparr>)"



text \<open>
  An example run. Dispatch is enabled and two window connections (tokens 0 and 1) are
  registered. A key goes down and is sent to connection 0, which acknowledges it; when the
  loop runs again with an empty queue after the repeat timeout, the key repeat is
  synthesized and sent. Then two motion entries of device 1 with two pointers arrive.
  \<open>exampleTargets\<close> resolves a motion entry to both connections, the second owning one
  of the two pointers. In \<open>exampleLater\<close> the two motion entries are dispatched, the
  second to connection 0 only, connection 1 acknowledges, and a third motion entry arrives
  and goes to connection 1.
\<close>

definition exampleConfig :: InputDispatcherConfiguration where
  "exampleConfig = \<lparr>keyRepeatTimeout = 500, keyRepeatDelay = 50\<rparr>"

definition exampleKey :: "nsecs \<Rightarrow> EventEntry" where
  "exampleKey t =
     \<lparr>sequenceId = 0, eventTime = t, entryType = KEY, deviceId = 2,
      action = ACTION_DOWN, pointerIds = [], repeatCount = 0, injectionState = False\<rparr>"

definition exampleMotion :: "nsecs \<Rightarrow> nat \<Rightarrow> EventEntry" where
  "exampleMotion t n =
     \<lparr>sequenceId = n, eventTime = t, entryType = MOTION, deviceId = 1,
      action = ACTION_MOVE, pointerIds = [0, 1], repeatCount = 0, injectionState = False\<rparr>"

definition exampleTargets :: "InputTarget list" where
  "exampleTargets =
     [\<lparr>targetToken = 0, targetPointerIds = [0, 1]\<rparr>, \<lparr>targetToken = 1, targetPointerIds = [0]\<rparr>]"

definition exampleCalls :: "ApiCall list" where
  "exampleCalls =
     [SetInputDispatchMode True False,
      CreateInputChannel False 5000, CreateInputChannel False 5000,
      NotifyEvent (exampleKey 10) False,
      DispatchOnce 20 NOT_DROPPED [\<lparr>targetToken = 0, targetPointerIds = []\<rparr>],
      FinishDispatch 30 0 1 True,
      DispatchOnce 600 NOT_DROPPED [\<lparr>targetToken = 0, targetPointerIds = []\<rparr>],
      NotifyEvent (exampleMotion 610 0) False, NotifyEvent (exampleMotion 620 0) False]"

definition exampleLater :: "ApiCall list" where
  "exampleLater =
     [DispatchOnce 630 NOT_DROPPED exampleTargets,
      DispatchOnce 640 NOT_DROPPED [\<lparr>targetToken = 0, targetPointerIds = [0, 1]\<rparr>],
      FinishDispatch 645 1 1 True,
      NotifyEvent (exampleMotion 650 0) False,
      DispatchOnce 660 NOT_DROPPED [\<lparr>targetToken = 1, targetPointerIds = [0, 1]\<rparr>]]"

section \<open>Properties of \<open>Display::disconnect\<close>\<close>

lemma disconnect_when_disconnected:
  "mIsDisconnected d \<Longrightarrow> disconnect tryCast d = d"
  by (simp add: disconnect_def)

lemma disconnect_sets_flag: "mIsDisconnected (disconnect tryCast d)"
  by (simp add: disconnect_def Let_def split: option.split)

lemma disconnect_calls:
  "hwcDisconnectCalls (disconnect tryCast d) =
     hwcDisconnectCalls d @
       (if mIsDisconnected d then []
        else (case tryCast (mId d) of Some i \<Rightarrow> [i] | None \<Rightarrow> []))"
  by (simp add: disconnect_def Let_def split: option.split)

lemma disconnect_funpow:
  "((disconnect tryCast) ^^ Suc n) d = disconnect tryCast d"
proof (induction n)
  case 0
  show ?case by simp
next
  case (Suc n)
  have "((disconnect tryCast) ^^ Suc (Suc n)) d
          = disconnect tryCast (((disconnect tryCast) ^^ Suc n) d)"
    by simp
  also have "\<dots> = disconnect tryCast (disconnect tryCast d)"
    using Suc.IH by simp
  also have "\<dots> = disconnect tryCast d"
    by (rule disconnect_when_disconnected) (rule disconnect_sets_flag)
  finally show ?case .
qed

text \<open>
  C9. \<open>Display::disconnect\<close> is idempotent. The first call on a connected display sets
  \<open>mIsDisconnected\<close> and calls the hardware composer's \<open>disconnectDisplay\<close> exactly when
  \<open>HalDisplayId::tryCast(mId)\<close> yields an id (one call, with that id) and not at all
  otherwise; a call on a display already marked disconnected returns the state as it is,
  so any number of calls has the effect of the first one and the hardware composer is
  called at most once.
\<close>

theorem disconnect_idempotent:
  "disconnect tryCast (disconnect tryCast d) = disconnect tryCast d
   \<and> mIsDisconnected (disconnect tryCast d)
   \<and> (\<not> mIsDisconnected d \<longrightarrow>
        disconnect tryCast d =
          (case tryCast (mId d) of
             Some i \<Rightarrow> d\<lparr>mIsDisconnected := True,
                            hwcDisconnectCalls := hwcDisconnectCalls d @ [i]\<rparr>
           | None \<Rightarrow> d\<lparr>mIsDisconnected := True\<rparr>))
   \<and> (mIsDisconnected d \<longrightarrow> disconnect tryCast d = d)
   \<and> ((disconnect tryCast) ^^ Suc n) d = disconnect tryCast d
   \<and> length (hwcDisconnectCalls (((disconnect tryCast) ^^ n) d))
        \<le> Suc (length (hwcDisconnectCalls d))"
proof -
  have idem: "disconnect tryCast (disconnect tryCast d) = disconnect tryCast d"
    by (rule disconnect_when_disconnected) (rule disconnect_sets_flag)
  have first: "\<not> mIsDisconnected d \<longrightarrow>
        disconnect tryCast d =
          (case tryCast (mId d) of
             Some i \<Rightarrow> d\<lparr>mIsDisconnected := True,
                            hwcDisconnectCalls := hwcDisconnectCalls d @ [i]\<rparr>
           | None \<Rightarrow> d\<lparr>mIsDisconnected := True\<rparr>)"
    by (simp add: disconnect_def Let_def split: option.split)
  have later: "mIsDisconnected d \<longrightarrow> disconnect tryCast d = d"
    by (simp add: disconnect_when_disconnected)
  have once: "length (hwcDisconnectCalls (((disconnect tryCast) ^^ n) d))
        \<le> Suc (length (hwcDisconnectCalls d))"
  proof (cases n)
    case 0
    then show ?thesis by simp
  next
    case (Suc m)
    then have "((disconnect tryCast) ^^ n) d = disconnect tryCast d"
      using disconnect_funpow [where n = m and tryCast = tryCast and d = d] by simp
    then show ?thesis
      by (simp add: disconnect_calls split: option.split)
  qed
  from idem disconnect_sets_flag [of tryCast d] first later
    disconnect_funpow [where n = n and tryCast = tryCast and d = d] once
  show ?thesis by blast
qed

theorem disconnect_idempotent_witness:
  "(let tc = (\<lambda>i::nat. if i < 10 then Some i else None);
        d = \<lparr>mId = 3, mIsDisconnected = False, hwcDisconnectCalls = []\<rparr>;
        v = \<lparr>mId = 12, mIsDisconnected = False, hwcDisconnectCalls = []\<rparr>
    in \<not> mIsDisconnected d
       \<and> disconnect tc d = \<lparr>mId = 3, mIsDisconnected = True, hwcDisconnectCalls = [3]\<rparr>
       \<and> mIsDisconnected (disconnect tc d)
       \<and> disconnect tc (disconnect tc d) = disconnect tc d
       \<and> ((disconnect tc) ^^ Suc 4) d = disconnect tc d
       \<and> disconnect tc v = \<lparr>mId = 12, mIsDisconnected = True, hwcDisconnectCalls = []\<rparr>)"
  using disconnect_idempotent
    [of "\<lambda>i::nat. if i < 10 then Some i else None"
        "\<lparr>mId = 3, mIsDisconnected = False, hwcDisconnectCalls = []\<rparr>" 4]
    disconnect_idempotent
    [of "\<lambda>i::nat. if i < 10 then Some i else None"
        "disconnect (\<lambda>i::nat. if i < 10 then Some i else None)
           \<lparr>mId = 3, mIsDisconnected = False, hwcDisconnectCalls = []\<rparr>" 0]
  by (simp add: disconnect_def Let_def)

section \<open>Properties of \<open>FrameTarget\<close>\<close>

text \<open>
  C10. \<open>didMissHwcFrame()\<close> is true exactly when \<open>mHwcFrameMissed\<close> is set and
  \<open>mGpuFrameMissed\<close> is not. So a frame recorded as missed whose miss is attributed to
  the GPU is not reported as an HWC miss, while \<open>didMissFrame()\<close> reports it.
\<close>

theorem didMissHwcFrame_iff:
  "didMissHwcFrame t = (mHwcFrameMissed t \<and> \<not> mGpuFrameMissed t)
   \<and> (mFrameMissed t \<and> mGpuFrameMissed t \<longrightarrow> \<not> didMissHwcFrame t \<and> didMissFrame t)"
  by (simp add: didMissHwcFrame_def didMissFrame_def)

theorem didMissHwcFrame_iff_witness:
  "(let t = \<lparr>mVsyncId = 557, mFrameBeginTime = 5033, mExpectedPresentTime = 5043,
              mFramePending = True, mFrameMissed = True,
              mHwcFrameMissed = True, mGpuFrameMissed = True\<rparr>
    in mFrameMissed t \<and> mGpuFrameMissed t \<and> \<not> didMissHwcFrame t \<and> didMissFrame t)"
  using didMissHwcFrame_iff
    [of "\<lparr>mVsyncId = 557, mFrameBeginTime = 5033, mExpectedPresentTime = 5043,
              mFramePending = True, mFrameMissed = True,
              mHwcFrameMissed = True, mGpuFrameMissed = True\<rparr>"]
  by (simp add: Let_def)


section \<open>Focus resolution is idempotent\<close>

lemma setInputWindowsLocked_request:
  "mFocusRequestByDisplay (mFocusResolver (setInputWindowsLocked resolve ws d s))
     = mFocusRequestByDisplay (mFocusResolver s)"
  by (simp add: setInputWindowsLocked_def resolverSetInputWindows_def onFocusChangedLocked_def
      Let_def)

lemma setInputWindowsLocked_focus:
  "mFocusedWindowTokenByDisplay (mFocusResolver (setInputWindowsLocked resolve ws d s)) k
     = (if k = d then resolve (mFocusRequestByDisplay (mFocusResolver s) d) ws
        else mFocusedWindowTokenByDisplay (mFocusResolver s) k)"
  by (simp add: setInputWindowsLocked_def resolverSetInputWindows_def onFocusChangedLocked_def
      Let_def)

lemma setInputWindowsLocked_handles:
  "mWindowHandlesByDisplay (setInputWindowsLocked resolve ws d s) k
     = (if k = d then ws else mWindowHandlesByDisplay s k)"
  by (simp add: setInputWindowsLocked_def resolverSetInputWindows_def onFocusChangedLocked_def
      Let_def)

lemma setInputWindowsLocked_settled:
  assumes "mWindowHandlesByDisplay s d = ws"
    and "mFocusedWindowTokenByDisplay (mFocusResolver s) d
           = resolve (mFocusRequestByDisplay (mFocusResolver s) d) ws"
  shows "setInputWindowsLocked resolve ws d s = s"
proof -
  have "(mWindowHandlesByDisplay s)(d := ws) = mWindowHandlesByDisplay s"
    using assms(1) by auto
  then show ?thesis
    using assms(2)
    by (simp add: setInputWindowsLocked_def resolverSetInputWindows_def Let_def)
qed

lemma setInputWindows_settled:
  "settled resolve W s \<Longrightarrow> setInputWindows resolve W s = s"
proof (induction W)
  case Nil
  show ?case by (simp add: setInputWindows_def)
next
  case (Cons p W)
  from Cons.prems have "setInputWindowsLocked resolve (snd p) (fst p) s = s"
    by (intro setInputWindowsLocked_settled) (simp_all add: settled_def)
  moreover from Cons.prems have "settled resolve W s" by (simp add: settled_def)
  ultimately show ?case using Cons.IH by (simp add: setInputWindows_def)
qed

lemma setInputWindows_other_display:
  assumes "d \<notin> fst ` set W"
  shows "mWindowHandlesByDisplay (setInputWindows resolve W s) d = mWindowHandlesByDisplay s d
     \<and> mFocusedWindowTokenByDisplay (mFocusResolver (setInputWindows resolve W s)) d
         = mFocusedWindowTokenByDisplay (mFocusResolver s) d
     \<and> mFocusRequestByDisplay (mFocusResolver (setInputWindows resolve W s))
         = mFocusRequestByDisplay (mFocusResolver s)"
  using assms
proof (induction W arbitrary: s)
  case Nil
  show ?case by (simp add: setInputWindows_def)
next
  case (Cons p W)
  then have "d \<noteq> fst p" and "d \<notin> fst ` set W" by auto
  with Cons.IH [of "setInputWindowsLocked resolve (snd p) (fst p) s"] show ?case
    by (simp add: setInputWindows_def setInputWindowsLocked_request
        setInputWindowsLocked_focus setInputWindowsLocked_handles)
qed

lemma setInputWindows_request:
  "mFocusRequestByDisplay (mFocusResolver (setInputWindows resolve W s))
     = mFocusRequestByDisplay (mFocusResolver s)"
  by (induction W arbitrary: s)
     (simp_all add: setInputWindows_def setInputWindowsLocked_request)

lemma setInputWindows_makes_settled:
  "distinct (map fst W) \<Longrightarrow> settled resolve W (setInputWindows resolve W s)"
proof (induction W arbitrary: s)
  case Nil
  show ?case by (simp add: settled_def)
next
  case (Cons p W)
  let ?s1 = "setInputWindowsLocked resolve (snd p) (fst p) s"
  from Cons.prems have nin: "fst p \<notin> fst ` set W" and dist: "distinct (map fst W)" by auto
  have eq: "setInputWindows resolve (p # W) s = setInputWindows resolve W ?s1"
    by (simp add: setInputWindows_def)
  have rest: "settled resolve W (setInputWindows resolve W ?s1)"
    using dist by (rule Cons.IH)
  from setInputWindows_other_display [OF nin, of resolve ?s1]
  have "mWindowHandlesByDisplay (setInputWindows resolve W ?s1) (fst p) = snd p"
    and "mFocusedWindowTokenByDisplay (mFocusResolver (setInputWindows resolve W ?s1)) (fst p)
          = resolve (mFocusRequestByDisplay (mFocusResolver s) (fst p)) (snd p)"
    and "mFocusRequestByDisplay (mFocusResolver (setInputWindows resolve W ?s1))
          = mFocusRequestByDisplay (mFocusResolver s)"
    by (simp_all add: setInputWindowsLocked_request setInputWindowsLocked_focus
        setInputWindowsLocked_handles)
  with rest show ?case
    unfolding eq by (simp add: settled_def)
qed

text \<open>
  C8. Calling \<open>setInputWindows\<close> a second time with the same window set (a map: the
  display ids are distinct) changes nothing: the second call produces no focus-change
  notification beyond those of the first, and leaves the whole state as the first call
  left it. This holds from every state and for every rule \<open>resolve\<close> that computes the
  focus from the requested token and the window handles.
\<close>

theorem setInputWindows_idempotent:
  assumes "distinct (map fst handlesPerDisplay)"
  shows "focusNotifications
           (setInputWindows resolve handlesPerDisplay
              (setInputWindows resolve handlesPerDisplay s))
         = focusNotifications (setInputWindows resolve handlesPerDisplay s)
       \<and> setInputWindows resolve handlesPerDisplay
           (setInputWindows resolve handlesPerDisplay s)
         = setInputWindows resolve handlesPerDisplay s"
  using setInputWindows_settled [OF setInputWindows_makes_settled [OF assms]] by simp

theorem setInputWindows_idempotent_witness:
  "distinct (map fst [(0::int, [(5::nat, True, True), (7, True, True)]), (1, [(9, True, False)])])
   \<and> focusNotifications
       (setInputWindows exampleResolve
          [(0, [(5, True, True), (7, True, True)]), (1, [(9, True, False)])] exampleFocusState)
     = [\<lparr>oldFocus = None, newFocus = Some 7, displayId = 0\<rparr>]
   \<and> focusNotifications
       (setInputWindows exampleResolve
          [(0, [(5, True, True), (7, True, True)]), (1, [(9, True, False)])]
          (setInputWindows exampleResolve
             [(0, [(5, True, True), (7, True, True)]), (1, [(9, True, False)])]
             exampleFocusState))
     = [\<lparr>oldFocus = None, newFocus = Some 7, displayId = 0\<rparr>]"
proof -
  have d: "distinct (map fst [(0::int, [(5::nat, True, True), (7, True, True)]),
                              (1, [(9, True, False)])])"
    by simp
  have first: "focusNotifications
       (setInputWindows exampleResolve
          [(0, [(5, True, True), (7, True, True)]), (1, [(9, True, False)])] exampleFocusState)
     = [\<lparr>oldFocus = None, newFocus = Some 7, displayId = 0\<rparr>]"
    by (simp add: setInputWindows_def setInputWindowsLocked_def resolverSetInputWindows_def
        onFocusChangedLocked_def exampleResolve_def exampleFocusState_def Let_def)
  from setInputWindows_idempotent [OF d, of exampleResolve exampleFocusState] d first
  show ?thesis by simp
qed

section \<open>Dispatch order\<close>

subsection \<open>How the operations are composed\<close>




lemma startDispatchCycleLocked_rule:
  assumes "P s"
    and "\<And>c d rest. mConnectionsByToken s tok = Some c \<Longrightarrow> outboundQueue c = d # rest \<Longrightarrow>
           channelStatus s tok = OK \<Longrightarrow> P (written t tok c d rest s)"
    and "\<And>c. mConnectionsByToken s tok = Some c \<Longrightarrow> channelStatus s tok = DEAD_OBJECT \<Longrightarrow>
           P (abortBrokenDispatchCycleLocked tok s)"
  shows "P (startDispatchCycleLocked t tok s)"
  using assms
  by (simp add: startDispatchCycleLocked_def written_def Let_def
      split: option.split list.split status_t.split)









subsection \<open>Tokens are fresh\<close>

















subsection \<open>The order invariant\<close>



































lemma conns_startDispatchCycleLocked:
  "mConnectionsByToken s k = None \<Longrightarrow> mConnectionsByToken (startDispatchCycleLocked t tok s) k = None"
  by (rule startDispatchCycleLocked_rule)
     (auto simp: written_def Let_def abortBrokenDispatchCycleLocked_def
        postCommandLocked_def removeConnectionLocked_def)


























subsection \<open>A dispatched entry is enqueued for each of its targets\<close>











subsection \<open>A connection that is torn down is sent nothing more\<close>




















subsection \<open>What a dispatch entry carries\<close>



















subsection \<open>Arrival order is dispatch order\<close>




text \<open>
  In the example run connection 0 is sent the key and its repeat, and connection 1 the
  split instance of the first motion entry, with the one pointer that its window owns.
  The order is not one across connections: connection 0 has not acknowledged the repeat,
  so after \<open>exampleLater\<close> the first two motion entries still wait in its outbound queue
  while the third, which arrived after them, has been sent to connection 1.
\<close>

lemma dispatch_order_example:
  "map (\<lambda>d. (sequenceId (eventEntry d), pointerIds (eventEntry d)))
     (channelOf 1 (step (DispatchOnce 630 NOT_DROPPED exampleTargets)
                     (run exampleCalls (initialDispatcher 1000 1000 exampleConfig))))
     = [(4, [0])]
   \<and> map (\<lambda>d. (sequenceId (eventEntry d), repeatCount (eventEntry d)))
       (channelOf 0 (step (DispatchOnce 630 NOT_DROPPED exampleTargets)
                       (run exampleCalls (initialDispatcher 1000 1000 exampleConfig))))
     = [(0, 0), (1, 1)]
   \<and> delivered 1 (run (exampleCalls @ exampleLater) (initialDispatcher 1000 1000 exampleConfig))
     = [exampleMotion 610 2, exampleMotion 650 5]
   \<and> map originalEntry
       (outQ 0 (run (exampleCalls @ exampleLater) (initialDispatcher 1000 1000 exampleConfig)))
     = [exampleMotion 610 2, exampleMotion 620 3]"
  by code_simp

end
